theory Spec2Isabelle
  imports Complex_Main "HOL-Library.AList" "HOL-Library.Sublist"
begin

section \<open>Motif workflow of birdclef (src/birdclef/workflows/motif.py)\<close>

text \<open>
  The module finds the motif pair of every training clip: \<open>write\<close> processes one recording,
  the click commands \<open>extract\<close> and \<open>consolidate\<close> fan out over a directory tree.
  The embedding keeps the Python control flow. Exceptions are values of a sum type, the
  file system is an explicit association list from paths to nodes, and the calls into
  librosa, numpy, pandas and the \<open>simple\<close> package are either parameters (when only their
  result matters) or small models of their documented behaviour.

  Floating-point numbers are idealised as rationals: there is no NaN, no infinity and no
  rounding error in this development.

  Line 133 of the source (an option of the unfinished command \<open>generate_triplets\<close>) has
  an unbalanced string quote, so the file as a whole is not valid Python. The functions
  are modelled one by one, as each of them is written.
\<close>

subsection \<open>Python values and exceptions\<close>

datatype error =
    ValueError string
  | TypeError string
  | NameError string
  | IndexError
  | FileExistsError "string list"
  | FileNotFoundError "string list"
  | NotADirectoryError "string list"
  | IsADirectoryError "string list"
  | JSONDecodeError "string list"
  | InvalidWindowError
  | LibraryError string

text \<open>The scalar JSON values that occur in a metadata record; a Python dict keeps its
  insertion order, so it is an association list.\<close>

datatype jv = JNull | JInt int | JNum rat | JStr string

type_synonym dict = "(string \<times> jv) list"

text \<open>\<open>{**a, **b}\<close>: the keys of \<open>b\<close> overwrite in place or are appended.\<close>

definition dict_merge :: "dict \<Rightarrow> dict \<Rightarrow> dict" where
  "dict_merge a b = fold (\<lambda>(k, v). AList.update k v) b a"

text \<open>\<open>xs[0]\<close> and \<open>xs[i]\<close> for a non-negative index: out of range raises.\<close>

definition py_first :: "'a list \<Rightarrow> error + 'a" where
  "py_first xs = (case xs of [] \<Rightarrow> Inl IndexError | x # _ \<Rightarrow> Inr x)"

definition py_index :: "'a list \<Rightarrow> nat \<Rightarrow> error + 'a" where
  "py_index xs i = (if i < length xs then Inr (xs ! i) else Inl IndexError)"

text \<open>\<open>s.split(sep)\<close> for a non-empty separator: leftmost, non-overlapping occurrences.
  The source only splits at the literals \<open>".ogg"\<close> and (inside pathlib) \<open>"/"\<close>; for the
  empty separator, where Python raises, this function returns \<open>[s]\<close>.\<close>

function split_str :: "string \<Rightarrow> string \<Rightarrow> string list" where
  "split_str [] sep = [[]]"
| "split_str (c # cs) sep =
     (if sep \<noteq> [] \<and> prefix sep (c # cs)
      then [] # split_str (drop (length sep) (c # cs)) sep
      else (case split_str cs sep of [] \<Rightarrow> [[c]] | p # ps \<Rightarrow> (c # p) # ps))"
  by pat_completeness auto
termination
  by (relation "measure (\<lambda>(s, sep). length s)") (auto simp: neq_Nil_conv)

text \<open>\<open>sep.join(parts)\<close>.\<close>

fun py_join :: "string \<Rightarrow> string list \<Rightarrow> string" where
  "py_join sep [] = []"
| "py_join sep [p] = p"
| "py_join sep (p # q # ps) = p @ sep @ py_join sep (q # ps)"

text \<open>\<open>xs[-n:]\<close>.\<close>

definition last_n :: "nat \<Rightarrow> 'a list \<Rightarrow> 'a list" where
  "last_n n xs = drop (length xs - n) xs"

text \<open>\<open>round(x, 2)\<close> on a float: the nearest multiple of 0.01, ties to the even one.\<close>

definition round_half_even :: "rat \<Rightarrow> int" where
  "round_half_even x =
     (let f = \<lfloor>x\<rfloor>; r = x - of_int f
      in if r < 1 / 2 then f else if 1 / 2 < r then f + 1 else if even f then f else f + 1)"

definition py_round2 :: "rat \<Rightarrow> rat" where
  "py_round2 x = of_int (round_half_even (x * 100)) / 100"

subsection \<open>numpy\<close>

text \<open>\<open>np.argmin\<close> on a one-dimensional array: a single left-to-right scan that replaces
  the running minimum only on a strictly smaller value, so the first minimum wins. The
  empty array raises.\<close>

fun argmin_scan :: "rat \<Rightarrow> nat \<Rightarrow> nat \<Rightarrow> rat list \<Rightarrow> nat" where
  "argmin_scan best bi i [] = bi"
| "argmin_scan best bi i (x # xs) =
     (if x < best then argmin_scan x i (Suc i) xs else argmin_scan best bi (Suc i) xs)"

definition np_argmin :: "rat list \<Rightarrow> error + nat" where
  "np_argmin xs =
     (case xs of
        [] \<Rightarrow> Inl (ValueError ''attempt to get argmin of an empty sequence'')
      | x # rest \<Rightarrow> Inr (argmin_scan x 0 1 rest))"

text \<open>A feature matrix is a list of rows (bins); \<open>cens.shape[1]\<close> is the number of
  columns (frames).\<close>

type_synonym matrix = "rat list list"

definition shape1 :: "matrix \<Rightarrow> nat" where
  "shape1 m = (case m of [] \<Rightarrow> 0 | r # _ \<Rightarrow> length r)"

subsection \<open>pathlib and the file system\<close>

text \<open>A path is the list of its parts (\<open>Path.parts\<close>); an absolute path starts with the
  part \<open>"/"\<close>, the empty list is the current directory. Symbolic links and the resolution
  of \<open>".."\<close> are not modelled.\<close>

type_synonym path = "string list"

definition parts_of_string :: "string \<Rightarrow> path" where
  "parts_of_string s = filter (\<lambda>c. c \<noteq> [] \<and> c \<noteq> ''.'') (split_str s ''/'')"

text \<open>\<open>p / s\<close>: an absolute right operand replaces the left one.\<close>

definition path_div :: "path \<Rightarrow> string \<Rightarrow> path" where
  "path_div p s =
     (if prefix ''/'' s then ''/'' # parts_of_string s else p @ parts_of_string s)"

text \<open>\<open>p.name\<close>: the final part, empty for the current directory and for the root.\<close>

definition path_name :: "path \<Rightarrow> string" where
  "path_name p = (if p = [] \<or> p = [''/''] then [] else last p)"

text \<open>\<open>p.parent\<close> of a non-root path.\<close>

definition parent :: "path \<Rightarrow> path" where
  "parent p = butlast p"

text \<open>\<open>p.relative_to(base)\<close>.\<close>

definition relative_to :: "path \<Rightarrow> path \<Rightarrow> error + path" where
  "relative_to p base =
     (if prefix base p then Inr (drop (length base) p)
      else Inl (ValueError ''path is not in the subpath of base''))"

record table =
  columns :: "string list"
  rows :: "jv list list"

datatype content =
    Json dict
  | NpyFloat "rat list"
  | NpyInt "int list"
  | Parquet table
  | Raw string

datatype node = Dir | File content

type_synonym filesystem = "(path \<times> node) list"

definition node_at :: "filesystem \<Rightarrow> path \<Rightarrow> node option" where
  "node_at f p = (if p = [] then Some Dir else map_of f p)"

definition path_exists :: "filesystem \<Rightarrow> path \<Rightarrow> bool" where
  "path_exists f p = (node_at f p \<noteq> None)"

definition is_dir :: "filesystem \<Rightarrow> path \<Rightarrow> bool" where
  "is_dir f p = (node_at f p = Some Dir)"

text \<open>\<open>p.mkdir(parents=True, exist_ok=True)\<close>: every missing ancestor and the directory
  itself are created; an ancestor that is a regular file, or a regular file at \<open>p\<close>,
  raises. In a file system where every entry's ancestors are directories the failures
  happen before anything is created, as in the operating system.\<close>

fun mkdir_chain :: "path list \<Rightarrow> path \<Rightarrow> filesystem \<Rightarrow> error + filesystem" where
  "mkdir_chain [] p f = Inr f"
| "mkdir_chain (q # qs) p f =
     (case node_at f q of
        None \<Rightarrow> mkdir_chain qs p (AList.update q Dir f)
      | Some Dir \<Rightarrow> mkdir_chain qs p f
      | Some (File _) \<Rightarrow> Inl (if q = p then FileExistsError p else NotADirectoryError p))"

definition mkdir_parents :: "path \<Rightarrow> filesystem \<Rightarrow> error + filesystem" where
  "mkdir_parents p f = mkdir_chain (map (\<lambda>n. take n p) [1..<Suc (length p)]) p f"

text \<open>Opening \<open>p\<close> for writing and storing \<open>c\<close> (\<open>Path.write_text\<close>, \<open>np.save\<close>,
  \<open>DataFrame.to_parquet\<close>): the parent must be a directory and \<open>p\<close> must not be one.\<close>

definition store :: "path \<Rightarrow> content \<Rightarrow> filesystem \<Rightarrow> error + filesystem" where
  "store p c f =
     (if p = [] then Inl (IsADirectoryError p)
      else case node_at f (parent p) of
             None \<Rightarrow> Inl (FileNotFoundError p)
           | Some (File _) \<Rightarrow> Inl (NotADirectoryError p)
           | Some Dir \<Rightarrow>
               (case node_at f p of
                  Some Dir \<Rightarrow> Inl (IsADirectoryError p)
                | _ \<Rightarrow> Inr (AList.update p (File c) f)))"

text \<open>\<open>p.glob("**/" + pattern)\<close>: every entry strictly below \<open>p\<close> whose name matches, in
  listing order. The two patterns of the source are a fixed name and \<open>*.ogg\<close>.\<close>

definition glob_rec :: "filesystem \<Rightarrow> path \<Rightarrow> (string \<Rightarrow> bool) \<Rightarrow> path list" where
  "glob_rec f p matches =
     map fst (filter (\<lambda>(q, n). strict_prefix p q \<and> matches (last q)) f)"

subsection \<open>State, observable events and the exception monad\<close>

text \<open>The world is the file system plus a trace of the observable calls, which plays the
  role of the side-channel counter of the specification: decoding a recording, extracting
  features, invoking the motif locator, storing a file, printing.\<close>

datatype event =
    Load path
  | Features
  | Locate
  | Wrote path content
  | Printed table

record world =
  fs :: filesystem
  trace :: "event list"

type_synonym 'a io = "world \<Rightarrow> (error + 'a) \<times> world"

definition io_return :: "'a \<Rightarrow> 'a io" where
  "io_return x w = (Inr x, w)"

definition io_raise :: "error \<Rightarrow> 'a io" where
  "io_raise e w = (Inl e, w)"

definition io_lift :: "error + 'a \<Rightarrow> 'a io" where
  "io_lift r w = (r, w)"

definition io_bind :: "'a io \<Rightarrow> ('a \<Rightarrow> 'b io) \<Rightarrow> 'b io" where
  "io_bind m k w = (case m w of (Inl e, w') \<Rightarrow> (Inl e, w') | (Inr x, w') \<Rightarrow> k x w')"

definition io_emit :: "event \<Rightarrow> unit io" where
  "io_emit ev w = (Inr (), w\<lparr>trace := trace w @ [ev]\<rparr>)"

definition io_mkdir :: "path \<Rightarrow> unit io" where
  "io_mkdir p w =
     (case mkdir_parents p (fs w) of Inl e \<Rightarrow> (Inl e, w) | Inr f \<Rightarrow> (Inr (), w\<lparr>fs := f\<rparr>))"

definition io_store :: "path \<Rightarrow> content \<Rightarrow> unit io" where
  "io_store p c w =
     (case store p c (fs w) of
        Inl e \<Rightarrow> (Inl e, w)
      | Inr f \<Rightarrow> (Inr (), w\<lparr>fs := f, trace := trace w @ [Wrote p c]\<rparr>))"

text \<open>The events a run added to the trace.\<close>

definition new_events :: "world \<Rightarrow> world \<Rightarrow> event list" where
  "new_events w w' = drop (length (trace w)) (trace w')"

subsection \<open>External collaborators of \<open>write\<close>\<close>

text \<open>
  \<open>librosa.load\<close>, \<open>librosa.get_duration\<close>, \<open>librosa.feature.chroma_cens\<close>,
  \<open>birdclef.utils.cens_per_sec\<close> and \<open>simple.simple_fast\<close> are not part of the module;
  \<open>write\<close> takes them as parameters. Each is a function, hence deterministic; those that
  can raise return a sum. The decoded waveform is a list of samples, the sample rate an
  integer.
\<close>

record externals =
  librosa_load :: "path \<Rightarrow> error + (rat list \<times> int)"
  get_duration :: "rat list \<Rightarrow> int \<Rightarrow> rat"
  chroma_cens :: "rat list \<Rightarrow> int \<Rightarrow> int \<Rightarrow> error + matrix"
  cens_per_sec :: "int \<Rightarrow> int \<Rightarrow> int"
  simple_fast :: "matrix \<Rightarrow> matrix \<Rightarrow> int \<Rightarrow> error + (rat list \<times> int list)"

subsection \<open>\<open>write\<close> (lines 25-78)\<close>

definition output_files :: "string list" where
  "output_files = [''metadata.json'', ''mp.npy'', ''pi.npy'']"

text \<open>Lines 45-55: the record with a null motif pair.\<close>

definition metadata :: "path \<Rightarrow> int \<Rightarrow> int \<Rightarrow> int \<Rightarrow> matrix \<Rightarrow> rat list \<Rightarrow> rat \<Rightarrow> dict" where
  "metadata input_path cens_sr mp_window sample_rate cens data duration =
     [(''source_name'', JStr (py_join ''/'' (last_n 3 input_path))),
      (''cens_sample_rate'', JInt cens_sr),
      (''matrix_profile_window'', JInt mp_window),
      (''sample_rate'', JInt sample_rate),
      (''duration_cens'', JInt (int (shape1 cens))),
      (''duration_samples'', JInt (int (length data))),
      (''duration_seconds'', JNum (py_round2 duration)),
      (''motif_0'', JNull),
      (''motif_1'', JNull)]"

text \<open>Line 30-31: the directory of the recording.\<close>

definition output_dir :: "path \<Rightarrow> path \<Rightarrow> error + path" where
  "output_dir input_path output_path =
     (case py_first (split_str (path_name input_path) ''.ogg'') of
        Inl e \<Rightarrow> Inl e
      | Inr name \<Rightarrow> Inr (path_div output_path name))"

text \<open>Lines 34-35: the test for an already complete output set.\<close>

definition outputs_complete :: "filesystem \<Rightarrow> path \<Rightarrow> bool" where
  "outputs_complete f path =
     (path_exists f path \<and> is_dir f path \<and>
      list_all (\<lambda>x. path_exists f (path_div path x)) output_files)"

text \<open>
  The body in source order. \<open>json.dumps(d, indent=2)\<close> plus a newline is injective on these
  records, so the text written to \<open>metadata.json\<close> is represented by the record itself
  (\<open>Json d\<close>); the \<open>.npy\<close> dumps likewise by the arrays. The profile index is an array of
  indices, on which \<open>int(...)\<close> is the identity. \<open>f"{path}/mp.npy"\<close> names the same
  location as \<open>path / "mp.npy"\<close>.
\<close>

definition "write" :: "externals \<Rightarrow> path \<Rightarrow> path \<Rightarrow> int \<Rightarrow> int \<Rightarrow> unit io" where
  "write ext input_path output_path cens_sr mp_window w0 =
     (if path_exists (fs w0) output_path \<and> \<not> is_dir (fs w0) output_path
      then io_raise (ValueError ''output_path should be a folder'') w0
      else
        io_bind (io_lift (output_dir input_path output_path)) (\<lambda>path.
        if outputs_complete (fs w0) path then io_return ()
        else
          io_bind (io_emit (Load input_path)) (\<lambda>_.
          io_bind (io_lift (librosa_load ext input_path)) (\<lambda>(data, sample_rate).
          let duration = get_duration ext data sample_rate in
          io_bind (io_emit Features) (\<lambda>_.
          io_bind (io_lift (chroma_cens ext data sample_rate
                              (cens_per_sec ext sample_rate cens_sr))) (\<lambda>cens.
          let md = metadata input_path cens_sr mp_window sample_rate cens data duration in
          io_bind (io_mkdir path) (\<lambda>_.
          if duration < 5
          then io_store (path_div path ''metadata.json'') (Json md)
          else
            io_bind (io_emit Locate) (\<lambda>_.
            io_bind (io_lift (simple_fast ext cens cens mp_window)) (\<lambda>(mp, pi).
            io_bind (io_lift (np_argmin mp)) (\<lambda>motif.
            io_bind (io_lift (py_index pi motif)) (\<lambda>nearest.
            let idx = (int motif, nearest) in
            io_bind (io_store (path_div path ''metadata.json'')
                       (Json (dict_merge md
                          [(''motif_0'', JInt (fst idx)), (''motif_1'', JInt (snd idx))]))) (\<lambda>_.
            io_bind (io_store (path_div path ''mp.npy'') (NpyFloat mp)) (\<lambda>_.
            io_store (path_div path ''pi.npy'') (NpyInt pi))))))))))))) w0)"

subsection \<open>\<open>extract\<close> (lines 86-106)\<close>

text \<open>
  A call with keyword arguments, as click makes it for a command's callback
  (\<open>callback(**params)\<close>, one parameter per declared option): a keyword that is no
  parameter of the function, or a parameter without a value, is a \<open>TypeError\<close>.
\<close>

definition call_kwargs :: "string list \<Rightarrow> (string \<times> 'v) list \<Rightarrow> error + unit" where
  "call_kwargs params kwargs =
     (case filter (\<lambda>k. k \<notin> set params) (map fst kwargs) of
        k # _ \<Rightarrow> Inl (TypeError (''got an unexpected keyword argument '' @ k))
      | [] \<Rightarrow>
          (case filter (\<lambda>p. p \<notin> set (map fst kwargs)) params of
             p # _ \<Rightarrow> Inl (TypeError (''missing a required positional argument '' @ p))
           | [] \<Rightarrow> Inr ()))"

text \<open>Lines 100-103: one argument list per file.\<close>

fun build_args :: "path \<Rightarrow> path \<Rightarrow> path list \<Rightarrow> error + (path \<times> path \<times> int \<times> int) list" where
  "build_args rel_root dst [] = Inr []"
| "build_args rel_root dst (p # ps) =
     (case relative_to p rel_root of
        Inl e \<Rightarrow> Inl e
      | Inr rel \<Rightarrow>
          (case build_args rel_root dst ps of
             Inl e \<Rightarrow> Inl e
           | Inr args \<Rightarrow> Inr ((p, dst @ parent rel, 10, 50) # args)))"

text \<open>\<open>Pool(12).starmap(write, args, chunksize=1)\<close>: every task runs, a failure is raised
  once all are done. The tasks are independent; they are run here in list order, and the
  first failure in that order is the one reported.\<close>

fun starmap_write :: "externals \<Rightarrow> (path \<times> path \<times> int \<times> int) list \<Rightarrow> unit io" where
  "starmap_write ext [] w = (Inr (), w)"
| "starmap_write ext ((input_path, output_path, cens_sr, mp_window) # rest) w =
     (case write ext input_path output_path cens_sr mp_window w of
        (r, w1) \<Rightarrow>
          (case starmap_write ext rest w1 of
             (r', w2) \<Rightarrow> (case r of Inl e \<Rightarrow> (Inl e, w2) | Inr _ \<Rightarrow> (r', w2))))"

text \<open>
  The function as written: its parameters are \<open>species\<close> and \<open>dataset\<close>, and line 94
  reads the free name \<open>output\<close>, which Python looks up among the module's globals and
  the builtins. \<open>globals\<close> is that lookup for string values; a name that is not bound
  raises \<open>NameError\<close>. \<open>ROOT\<close> is the project root of line 19.
\<close>

definition "extract" :: "externals \<Rightarrow> (string \<Rightarrow> string option) \<Rightarrow> path \<Rightarrow> string option \<Rightarrow> string \<Rightarrow> unit io" where
  "extract ext globals ROOT species dataset w =
     (let rel_root = path_div ROOT ''data/raw/birdclef-2022/train_audio'';
          src = (case species of
                   None \<Rightarrow> rel_root
                 | Some s \<Rightarrow> if s = [] then rel_root else path_div rel_root s)
      in case globals ''output'' of
           None \<Rightarrow> io_raise (NameError ''output'') w
         | Some output \<Rightarrow>
             (let dst = path_div ROOT (''data/intermediate/'' @ output);
                  files = glob_rec (fs w) src (suffix ''.ogg'')
              in if files = [] then io_raise (ValueError ''no files found'') w
                 else io_bind (io_lift (build_args rel_root dst files))
                        (starmap_write ext) w))"

text \<open>The module binds no global named \<open>output\<close> (its globals are the imports, \<open>ROOT\<close>
  and the functions), and there is no such builtin.\<close>

definition module_globals :: "string \<Rightarrow> string option" where
  "module_globals name = None"

text \<open>The command: click declares the options \<open>--species\<close> and \<open>--output\<close> (lines 87-88)
  and calls the function of line 89 with these two keywords.\<close>

definition extract_command :: "externals \<Rightarrow> path \<Rightarrow> string option \<Rightarrow> string \<Rightarrow> unit io" where
  "extract_command ext ROOT species output w =
     (let kwargs = [(''species'', species), (''output'', Some output)]
      in case call_kwargs [''species'', ''dataset''] kwargs of
           Inl e \<Rightarrow> io_raise e w
         | Inr _ \<Rightarrow>
             (case (map_of kwargs ''species'', map_of kwargs ''dataset'') of
                (Some sp, Some (Some ds)) \<Rightarrow> extract ext module_globals ROOT sp ds w
              | _ \<Rightarrow> io_raise (TypeError ''missing a required positional argument'') w))"

subsection \<open>\<open>consolidate\<close> (lines 109-129)\<close>

text \<open>\<open>json.loads(path.read_text())\<close>. Only files holding a JSON object of scalars are
  represented as such; any other content fails to decode.\<close>

definition read_json :: "filesystem \<Rightarrow> path \<Rightarrow> error + dict" where
  "read_json f p =
     (case node_at f p of
        None \<Rightarrow> Inl (FileNotFoundError p)
      | Some Dir \<Rightarrow> Inl (IsADirectoryError p)
      | Some (File (Json d)) \<Rightarrow> Inr d
      | Some (File _) \<Rightarrow> Inl (JSONDecodeError p))"

text \<open>\<open>Pool(12).map(_read_json, files, chunksize=1)\<close>: the results in the order of the
  files; reading changes nothing.\<close>

fun pool_map_read :: "filesystem \<Rightarrow> path list \<Rightarrow> error + dict list" where
  "pool_map_read f [] = Inr []"
| "pool_map_read f (p # ps) =
     (case read_json f p of
        Inl e \<Rightarrow> Inl e
      | Inr d \<Rightarrow> (case pool_map_read f ps of Inl e \<Rightarrow> Inl e | Inr ds \<Rightarrow> Inr (d # ds)))"

text \<open>\<open>pd.DataFrame(records)\<close> for a list of dicts: one row per dict, the columns are the
  keys in the order of their first appearance, a key a dict lacks gives a null cell.
  Cells are compared as JSON values; the storage type pandas picks for a column is not
  modelled.\<close>

definition first_seen :: "'a list \<Rightarrow> 'a list" where
  "first_seen xs = rev (remdups (rev xs))"

definition cell_of :: "dict \<Rightarrow> string \<Rightarrow> jv" where
  "cell_of d c = (case map_of d c of None \<Rightarrow> JNull | Some v \<Rightarrow> v)"

definition data_frame :: "dict list \<Rightarrow> table" where
  "data_frame data =
     (let cols = first_seen (concat (map (map fst) data))
      in \<lparr>columns = cols, rows = map (\<lambda>d. map (cell_of d) cols) data\<rparr>)"

definition df_head :: "table \<Rightarrow> table" where
  "df_head df = df\<lparr>rows := take 5 (rows df)\<rparr>"

definition consolidate :: "path \<Rightarrow> string \<Rightarrow> string \<Rightarrow> unit io" where
  "consolidate ROOT input output w =
     (let src = path_div ROOT (''data/intermediate/'' @ input);
          dst = path_div ROOT (''data/intermediate/'' @ output @ ''.parquet'');
          files = glob_rec (fs w) src (\<lambda>n. n = ''metadata.json'')
      in if files = [] then io_raise (ValueError ''no files found'') w
         else
           io_bind (io_lift (pool_map_read (fs w) files)) (\<lambda>data.
           let df = data_frame data in
           io_bind (io_emit (Printed (df_head df))) (\<lambda>_.
           io_store dst (Parquet df))) w)"

subsection \<open>The specification's wording, for comparison with the code\<close>

text \<open>The nine keys of a metadata record, in the order of lines 46-54.\<close>

definition metadata_keys :: "string list" where
  "metadata_keys =
     [''source_name'', ''cens_sample_rate'', ''matrix_profile_window'', ''sample_rate'',
      ''duration_cens'', ''duration_samples'', ''duration_seconds'', ''motif_0'', ''motif_1'']"

text \<open>"Stripping the audio file extension from its filename" (section 6), whatever the
  extension is: the name up to its last dot, or the whole name when it has none.\<close>

definition spec_strip_extension :: "string \<Rightarrow> string" where
  "spec_strip_extension name =
     (if CHR ''.'' \<in> set name
      then rev (tl (dropWhile (\<lambda>c. c \<noteq> CHR ''.'') (rev name)))
      else name)"

text \<open>
  Modelled from the spec: the Motif Locator's eager window validation. The locator is
  \<open>simple_fast\<close> of the external package \<open>simple\<close>, whose code is not among the sources;
  section 4.2 says that it "fails with InvalidWindowError when window >= frames or
  window <= 0" and that "this must be validated before computation begins". The numeric
  search itself is the parameter \<open>search\<close>, which runs only on a valid window.
\<close>

definition locate ::
  "(matrix \<Rightarrow> matrix \<Rightarrow> int \<Rightarrow> error + (rat list \<times> int list)) \<Rightarrow>
   matrix \<Rightarrow> matrix \<Rightarrow> int \<Rightarrow> error + (rat list \<times> int list)" where
  "locate search data query window =
     (if int (shape1 data) \<le> window \<or> window \<le> 0 then Inl InvalidWindowError
      else search data query window)"

subsection \<open>Sample recordings and file systems\<close>

text \<open>
  Concrete collaborators on which the theorems below are instantiated: a decoder that
  knows two recordings at 20 samples per second (90 samples, 4.5 seconds, and 110
  samples, 5.5 seconds), a two-bin feature extractor with one frame per hop, and a
  locator that returns a fixed profile with a tie for the minimum.
\<close>

definition sample_load :: "path \<Rightarrow> error + (rat list \<times> int)" where
  "sample_load p =
     (if path_name p = ''short.ogg'' then Inr (replicate 90 0, 20)
      else if path_name p = ''long.ogg'' then Inr (replicate 110 0, 20)
      else Inl (LibraryError ''cannot decode''))"

definition sample_cens :: "rat list \<Rightarrow> int \<Rightarrow> int \<Rightarrow> error + matrix" where
  "sample_cens data sr hop =
     (if hop \<le> 0 then Inl (LibraryError ''hop_length must be positive'')
      else (let row = replicate (length data div nat hop + 1) 0 in Inr [row, row]))"

definition sample_search :: "matrix \<Rightarrow> matrix \<Rightarrow> int \<Rightarrow> error + (rat list \<times> int list)" where
  "sample_search data query window = Inr ([3, 1, 2, 1], [2, 3, 0, 1])"

definition sample_ext :: externals where
  "sample_ext =
     \<lparr>librosa_load = sample_load,
      get_duration = (\<lambda>data sr. of_nat (length data) / of_int sr),
      chroma_cens = sample_cens,
      cens_per_sec = (\<lambda>sr cens_sr. sr div cens_sr),
      simple_fast = sample_search\<rparr>"

definition validating_ext :: externals where
  "validating_ext = sample_ext\<lparr>simple_fast := locate sample_search\<rparr>"

definition short_ogg :: path where
  "short_ogg = [''train_audio'', ''afrsil1'', ''short.ogg'']"

definition long_ogg :: path where
  "long_ogg = [''train_audio'', ''afrsil1'', ''long.ogg'']"

definition out_dir :: path where
  "out_dir = [''motif'', ''afrsil1'']"

definition empty_world :: world where
  "empty_world = \<lparr>fs = [], trace = []\<rparr>"

definition blocked_world :: world where
  "blocked_world = \<lparr>fs = [([''motif''], Dir), ([''motif'', ''afrsil1''], File (Raw ''x''))], trace = []\<rparr>"



section \<open>Properties\<close>

subsection \<open>Strings\<close>

lemma ogg_prefix_append:
  assumes "prefix ''.ogg'' (s @ ''.ogg'')" and "s \<noteq> []"
  shows "prefix ''.ogg'' s"
proof -
  from assms(1) consider "prefix ''.ogg'' s"
    | us where "''.ogg'' = s @ us" "prefix us ''.ogg''"
    unfolding prefix_append by blast
  then show ?thesis
  proof cases
    case 1
    then show ?thesis .
  next
    case 2
    from 2(1) assms(2) have "us = [] \<or> us = ''ogg'' \<or> us = ''gg'' \<or> us = ''g''"
      by (auto simp: Cons_eq_append_conv)
    with 2(2) have "us = []" by auto
    with 2(1) show ?thesis by simp
  qed
qed

lemma split_str_not_Nil: "split_str s sep \<noteq> []"
  by (induction s sep rule: split_str.induct) (auto split: list.splits)

lemma py_first_split: "py_first (split_str s sep) = Inr (hd (split_str s sep))"
  using split_str_not_Nil [of s sep] by (cases "split_str s sep") (auto simp: py_first_def)

lemma split_str_no_match:
  "\<not> (\<exists>u v. s = u @ sep @ v) \<Longrightarrow> split_str s sep = [s]"
proof (induction s sep rule: split_str.induct)
  case (1 sep)
  then show ?case by simp
next
  case (2 c cs sep)
  have np: "\<not> prefix sep (c # cs)"
  proof
    assume "prefix sep (c # cs)"
    then obtain v where "c # cs = sep @ v" by (auto simp: prefix_def)
    then have "c # cs = [] @ sep @ v" by simp
    with 2(3) show False by blast
  qed
  have "\<not> (\<exists>u v. cs = u @ sep @ v)"
  proof
    assume "\<exists>u v. cs = u @ sep @ v"
    then obtain u v where "cs = u @ sep @ v" by blast
    then have "c # cs = (c # u) @ sep @ v" by simp
    with 2(3) show False by blast
  qed
  with 2(2) np have "split_str cs sep = [cs]" by simp
  with np show ?case by simp
qed

lemma split_str_ogg_suffix:
  "\<not> (\<exists>u v. stem = u @ ''.ogg'' @ v) \<Longrightarrow> split_str (stem @ ''.ogg'') ''.ogg'' = [stem, []]"
proof (induction stem)
  case Nil
  then show ?case by simp
next
  case (Cons c cs)
  have no: "\<not> (\<exists>u v. cs = u @ ''.ogg'' @ v)"
  proof
    assume "\<exists>u v. cs = u @ ''.ogg'' @ v"
    then obtain u v where "cs = u @ ''.ogg'' @ v" by blast
    then have "c # cs = (c # u) @ ''.ogg'' @ v" by simp
    with Cons.prems show False by blast
  qed
  have np: "\<not> prefix ''.ogg'' ((c # cs) @ ''.ogg'')"
  proof
    assume "prefix ''.ogg'' ((c # cs) @ ''.ogg'')"
    then have "prefix ''.ogg'' (c # cs)" by (rule ogg_prefix_append) simp
    then obtain v where "c # cs = [] @ ''.ogg'' @ v" by (auto simp: prefix_def)
    with Cons.prems show False by blast
  qed
  have "split_str ((c # cs) @ ''.ogg'') ''.ogg'' =
        (case split_str (cs @ ''.ogg'') ''.ogg'' of [] \<Rightarrow> [[c]] | p # ps \<Rightarrow> (c # p) # ps)"
    using np by (simp del: prefix_code Cons_prefix_Cons)
  then show ?case using Cons.IH [OF no] by simp
qed

subsection \<open>File system, argmin and rounding\<close>

lemma path_div_metadata [simp]: "path_div p ''metadata.json'' = p @ [''metadata.json'']"
  by (simp add: path_div_def parts_of_string_def)

lemma path_div_mp [simp]: "path_div p ''mp.npy'' = p @ [''mp.npy'']"
  by (simp add: path_div_def parts_of_string_def)

lemma path_div_pi [simp]: "path_div p ''pi.npy'' = p @ [''pi.npy'']"
  by (simp add: path_div_def parts_of_string_def)

lemma node_at_update:
  "p \<noteq> [] \<Longrightarrow> node_at (AList.update p v f) q = (if q = p then Some v else node_at f q)"
  by (auto simp: node_at_def update_conv')

lemma store_Inr:
  "store p c f = Inr f' \<Longrightarrow> p \<noteq> [] \<and> f' = AList.update p (File c) f"
  by (auto simp: store_def split: if_splits option.splits node.splits)

lemma node_at_store:
  "store p c f = Inr f' \<Longrightarrow> node_at f' q = (if q = p then Some (File c) else node_at f q)"
  by (auto dest!: store_Inr simp: node_at_update)

lemma mkdir_chain_files:
  "mkdir_chain qs p f = Inr f' \<Longrightarrow> [] \<notin> set qs \<Longrightarrow>
   (node_at f' q = Some (File c)) = (node_at f q = Some (File c))"
proof (induction qs arbitrary: f)
  case Nil
  then show ?case by simp
next
  case (Cons a qs)
  show ?case
  proof (cases "node_at f a")
    case None
    with Cons.prems have "mkdir_chain qs p (AList.update a Dir f) = Inr f'" by simp
    from Cons.IH [OF this] Cons.prems(2) None show ?thesis
      by (auto simp: node_at_update split: if_splits)
  next
    case (Some n)
    with Cons.prems show ?thesis
      by (cases n) (auto dest: Cons.IH)
  qed
qed

lemma mkdir_parents_files:
  "mkdir_parents p f = Inr f' \<Longrightarrow> (node_at f' q = Some (File c)) = (node_at f q = Some (File c))"
  unfolding mkdir_parents_def by (erule mkdir_chain_files) auto

lemma first_min_scan:
  assumes "bi < length pre"
    and "\<forall>j<length pre. pre ! bi \<le> pre ! j"
    and "\<forall>j<bi. pre ! bi < pre ! j"
  shows "let r = argmin_scan (pre ! bi) bi (length pre) xs; ys = pre @ xs
         in r < length ys \<and> (\<forall>j<length ys. ys ! r \<le> ys ! j) \<and> (\<forall>j<r. ys ! r < ys ! j)"
  using assms
proof (induction xs arbitrary: pre bi)
  case Nil
  then show ?case by simp
next
  case (Cons x xs)
  let ?pre = "pre @ [x]"
  show ?case
  proof (cases "x < pre ! bi")
    case True
    have a: "length pre < length ?pre" by simp
    have b: "\<forall>j<length ?pre. ?pre ! length pre \<le> ?pre ! j"
      using True Cons.prems(2) by (auto simp: nth_append less_Suc_eq intro: order_trans less_imp_le)
    have c: "\<forall>j<length pre. ?pre ! length pre < ?pre ! j"
      using True Cons.prems(2) by (auto simp: nth_append)
    from Cons.IH [OF a b c] True show ?thesis by (simp add: Let_def)
  next
    case False
    have a: "bi < length ?pre" using Cons.prems(1) by simp
    have b: "\<forall>j<length ?pre. ?pre ! bi \<le> ?pre ! j"
      using False Cons.prems(1,2) by (auto simp: nth_append less_Suc_eq)
    have c: "\<forall>j<bi. ?pre ! bi < ?pre ! j"
      using Cons.prems(1,3) by (auto simp: nth_append)
    from Cons.IH [OF a b c] False Cons.prems(1) show ?thesis by (simp add: Let_def nth_append)
  qed
qed

lemma np_argmin_first_min:
  assumes "np_argmin mp = Inr r"
  shows "r < length mp \<and> (\<forall>j<length mp. mp ! r \<le> mp ! j) \<and> (\<forall>j<r. mp ! r < mp ! j)"
proof (cases mp)
  case Nil
  with assms show ?thesis by (simp add: np_argmin_def)
next
  case (Cons x rest)
  with assms have r: "r = argmin_scan x 0 1 rest" by (simp add: np_argmin_def)
  have "let r = argmin_scan ([x] ! 0) 0 (length [x]) rest; ys = [x] @ rest
        in r < length ys \<and> (\<forall>j<length ys. ys ! r \<le> ys ! j) \<and> (\<forall>j<r. ys ! r < ys ! j)"
    by (rule first_min_scan) auto
  with r Cons show ?thesis by (simp add: Let_def)
qed

lemma round_half_even_near: "\<bar>of_int (round_half_even x) - x\<bar> \<le> 1 / 2"
proof -
  have "of_int \<lfloor>x\<rfloor> \<le> x" "x < of_int \<lfloor>x\<rfloor> + 1" by linarith+
  then show ?thesis by (auto simp: round_half_even_def Let_def)
qed

lemma py_round2_near: "\<bar>py_round2 x - x\<bar> \<le> 1 / 200"
proof -
  have "\<bar>of_int (round_half_even (x * 100)) - x * 100\<bar> \<le> 1 / 2" by (rule round_half_even_near)
  then show ?thesis by (simp add: py_round2_def abs_le_iff field_simps)
qed

lemma py_round2_hundredths: "py_round2 x * 100 = of_int (round_half_even (x * 100))"
  by (simp add: py_round2_def)

lemma mkdir_chain_other:
  "mkdir_chain qs p f = Inr f' \<Longrightarrow> [] \<notin> set qs \<Longrightarrow> q \<notin> set qs \<Longrightarrow> node_at f' q = node_at f q"
proof (induction qs arbitrary: f)
  case Nil
  then show ?case by simp
next
  case (Cons a qs)
  show ?case
  proof (cases "node_at f a")
    case None
    with Cons.prems have "mkdir_chain qs p (AList.update a Dir f) = Inr f'" by simp
    moreover from Cons.prems(2) have "a \<noteq> []" by auto
    ultimately show ?thesis using Cons.IH [of "AList.update a Dir f"] Cons.prems(2,3)
      by (simp add: node_at_update)
  next
    case (Some n)
    show ?thesis
    proof (cases n)
      case Dir
      with Some Cons.prems have "mkdir_chain qs p f = Inr f'" by simp
      from Cons.IH [OF this] Cons.prems(2,3) show ?thesis by simp
    next
      case (File c)
      with Some Cons.prems show ?thesis by simp
    qed
  qed
qed

lemma mkdir_parents_child:
  assumes "mkdir_parents p f = Inr f'"
  shows "node_at f' (p @ [x]) = node_at f (p @ [x])"
proof -
  let ?qs = "map (\<lambda>n. take n p) [1..<Suc (length p)]"
  have a: "p @ [x] \<notin> set ?qs"
  proof
    assume "p @ [x] \<in> set ?qs"
    then obtain n where "p @ [x] = take n p" by auto
    then have "length (p @ [x]) = length (take n p)" by simp
    then show False by simp
  qed
  have b: "[] \<notin> set ?qs" by auto
  from assms have "mkdir_chain ?qs p f = Inr f'" by (simp add: mkdir_parents_def)
  from mkdir_chain_other [OF this b a] show ?thesis .
qed

subsection \<open>Metadata records\<close>

lemma merge_motif_0 [simp]:
  "map_of (dict_merge md [(''motif_0'', a), (''motif_1'', b)]) ''motif_0'' = Some a"
  by (simp add: dict_merge_def update_conv')

lemma merge_motif_1 [simp]:
  "map_of (dict_merge md [(''motif_0'', a), (''motif_1'', b)]) ''motif_1'' = Some b"
  by (simp add: dict_merge_def update_conv')

lemma merge_other:
  "k \<noteq> ''motif_0'' \<Longrightarrow> k \<noteq> ''motif_1'' \<Longrightarrow>
   map_of (dict_merge md [(''motif_0'', a), (''motif_1'', b)]) k = map_of md k"
  by (simp add: dict_merge_def update_conv')

lemma metadata_keys_of [simp]: "map fst (metadata i c m sr cens data dur) = metadata_keys"
  by (simp add: metadata_def metadata_keys_def)

lemma merge_keys [simp]:
  "map fst (dict_merge (metadata i c m sr cens data dur) [(''motif_0'', a), (''motif_1'', b)]) =
   metadata_keys"
  by (simp add: dict_merge_def metadata_def metadata_keys_def)

lemma metadata_motif [simp]:
  "map_of (metadata i c m sr cens data dur) ''motif_0'' = Some JNull"
  "map_of (metadata i c m sr cens data dur) ''motif_1'' = Some JNull"
  by (simp_all add: metadata_def)

lemma metadata_duration [simp]:
  "map_of (metadata i c m sr cens data dur) ''duration_seconds'' = Some (JNum (py_round2 dur))"
  by (simp add: metadata_def)

lemmas io_defs = io_bind_def io_lift_def io_raise_def io_return_def io_emit_def io_mkdir_def
  io_store_def

lemma output_dir_total: "\<exists>path. output_dir input_path output_path = Inr path"
  by (simp add: output_dir_def py_first_split)


subsection \<open>The runs of \<open>write\<close>\<close>

lemma written_record_cases:
  assumes "write ext input_path output_path cens_sr mp_window w = (r, w')"
    and "Wrote p (Json d) \<in> set (new_events w w')"
  obtains (null_pair) path data sample_rate cens where
      "output_dir input_path output_path = Inr path" "p = path @ [''metadata.json'']"
      "librosa_load ext input_path = Inr (data, sample_rate)"
      "d = metadata input_path cens_sr mp_window sample_rate cens data
             (get_duration ext data sample_rate)"
  | (motif_pair) path data sample_rate cens a b where
      "output_dir input_path output_path = Inr path" "p = path @ [''metadata.json'']"
      "librosa_load ext input_path = Inr (data, sample_rate)"
      "d = dict_merge (metadata input_path cens_sr mp_window sample_rate cens data
             (get_duration ext data sample_rate)) [(''motif_0'', JInt a), (''motif_1'', JInt b)]"
  using assms unfolding write_def io_defs new_events_def
  by (auto split: if_splits sum.splits prod.splits simp: Let_def)

lemma short_success:
  assumes "write ext input_path output_path cens_sr mp_window w = (Inr (), w')"
    and "output_dir input_path output_path = Inr path"
    and "\<not> outputs_complete (fs w) path"
    and "librosa_load ext input_path = Inr (data, sample_rate)"
    and "get_duration ext data sample_rate < 5"
  obtains cens f1 f2 where
    "chroma_cens ext data sample_rate (cens_per_sec ext sample_rate cens_sr) = Inr cens"
    "mkdir_parents path (fs w) = Inr f1"
    "store (path @ [''metadata.json''])
       (Json (metadata input_path cens_sr mp_window sample_rate cens data
                (get_duration ext data sample_rate))) f1 = Inr f2"
    "fs w' = f2"
    "new_events w w' =
       [Load input_path, Features,
        Wrote (path @ [''metadata.json''])
          (Json (metadata input_path cens_sr mp_window sample_rate cens data
                   (get_duration ext data sample_rate)))]"
  using assms unfolding write_def io_defs new_events_def
  by (auto split: if_splits sum.splits prod.splits simp: Let_def)

lemma long_success:
  assumes "write ext input_path output_path cens_sr mp_window w = (Inr (), w')"
    and "output_dir input_path output_path = Inr path"
    and "\<not> outputs_complete (fs w) path"
    and "librosa_load ext input_path = Inr (data, sample_rate)"
    and "\<not> get_duration ext data sample_rate < 5"
  obtains cens f1 mp pidx motif nearest f2 f3 f4 where
    "chroma_cens ext data sample_rate (cens_per_sec ext sample_rate cens_sr) = Inr cens"
    "mkdir_parents path (fs w) = Inr f1"
    "simple_fast ext cens cens mp_window = Inr (mp, pidx)"
    "np_argmin mp = Inr motif" "py_index pidx motif = Inr nearest"
    "store (path @ [''metadata.json''])
       (Json (dict_merge (metadata input_path cens_sr mp_window sample_rate cens data
                (get_duration ext data sample_rate))
           [(''motif_0'', JInt (int motif)), (''motif_1'', JInt nearest)])) f1 = Inr f2"
    "store (path @ [''mp.npy'']) (NpyFloat mp) f2 = Inr f3"
    "store (path @ [''pi.npy'']) (NpyInt pidx) f3 = Inr f4"
    "fs w' = f4"
    "new_events w w' =
       [Load input_path, Features, Locate,
        Wrote (path @ [''metadata.json''])
          (Json (dict_merge (metadata input_path cens_sr mp_window sample_rate cens data
                (get_duration ext data sample_rate))
           [(''motif_0'', JInt (int motif)), (''motif_1'', JInt nearest)])),
        Wrote (path @ [''mp.npy'']) (NpyFloat mp),
        Wrote (path @ [''pi.npy'']) (NpyInt pidx)]"
  using assms unfolding write_def io_defs new_events_def
  by (auto split: if_splits sum.splits prod.splits simp: Let_def)

lemma short_events:
  assumes "write ext input_path output_path cens_sr mp_window w = (r, w')"
    and "librosa_load ext input_path = Inr (data, sample_rate)"
    and "get_duration ext data sample_rate < 5"
  shows "Locate \<notin> set (new_events w w')"
    and "Wrote p (NpyFloat mp) \<notin> set (new_events w w')"
    and "Wrote p (NpyInt pidx) \<notin> set (new_events w w')"
  using assms unfolding write_def io_defs new_events_def
  by (auto split: if_splits sum.splits prod.splits simp: Let_def)


lemma failed_locate_no_writes:
  assumes "write ext input_path output_path cens_sr mp_window w = (r, w')"
    and "librosa_load ext input_path = Inr (data, sample_rate)"
    and "chroma_cens ext data sample_rate (cens_per_sec ext sample_rate cens_sr) = Inr cens"
    and "\<not> get_duration ext data sample_rate < 5"
    and "simple_fast ext cens cens mp_window = Inl e"
  shows "Wrote p c \<notin> set (new_events w w')"
    and "Locate \<in> set (new_events w w') \<Longrightarrow> r = Inl e"
    and "r = Inr () \<Longrightarrow> w' = w"
    and "fs w' = fs w \<or>
         (\<exists>path. output_dir input_path output_path = Inr path \<and>
                 mkdir_parents path (fs w) = Inr (fs w'))"
  using assms unfolding write_def io_defs new_events_def
  by (auto split: if_splits sum.splits prod.splits simp: Let_def)

lemma complete_rerun:
  assumes "output_dir input_path output_path = Inr path"
    and "outputs_complete (fs w) path"
    and "\<not> (path_exists (fs w) output_path \<and> \<not> is_dir (fs w) output_path)"
  shows "write ext input_path output_path cens_sr mp_window w = (Inr (), w)"
  using assms by (simp add: write_def io_defs)



lemma short_branch:
  assumes run': "write ext input_path output_path cens_sr mp_window w = (Inr (), w')"
    and dir: "output_dir input_path output_path = Inr path"
    and audio: "librosa_load ext input_path = Inr (data, sample_rate)"
  and short: "get_duration ext data sample_rate < 5"
  and fresh: "\<not> outputs_complete (fs w) path"
  shows "(\<exists>md. node_at (fs w') (path @ [''metadata.json'']) = Some (File (Json md)) \<and>
                  Wrote (path @ [''metadata.json'']) (Json md) \<in> set (new_events w w') \<and>
                  map_of md ''motif_0'' = Some JNull \<and> map_of md ''motif_1'' = Some JNull) \<and>
               node_at (fs w') (path @ [''mp.npy'']) = node_at (fs w) (path @ [''mp.npy'']) \<and>
               node_at (fs w') (path @ [''pi.npy'']) = node_at (fs w) (path @ [''pi.npy''])"
proof -
  from short_success [OF run' dir fresh audio short] obtain cens f1 f2 where
    mk: "mkdir_parents path (fs w) = Inr f1"
    and st: "store (path @ [''metadata.json''])
       (Json (metadata input_path cens_sr mp_window sample_rate cens data
                (get_duration ext data sample_rate))) f1 = Inr f2"
    and fs: "fs w' = f2"
    and ev: "new_events w w' =
       [Load input_path, Features,
        Wrote (path @ [''metadata.json''])
          (Json (metadata input_path cens_sr mp_window sample_rate cens data
                   (get_duration ext data sample_rate)))]"
    by blast
  let ?md = "metadata input_path cens_sr mp_window sample_rate cens data
                (get_duration ext data sample_rate)"
  have a: "node_at (fs w') (path @ [''metadata.json'']) = Some (File (Json ?md))"
    unfolding fs by (simp add: node_at_store [OF st])
  have b: "Wrote (path @ [''metadata.json'']) (Json ?md) \<in> set (new_events w w')"
    unfolding ev by simp
  have c: "node_at (fs w') (path @ [''mp.npy'']) = node_at (fs w) (path @ [''mp.npy''])"
    unfolding fs by (simp add: node_at_store [OF st] mkdir_parents_child [OF mk])
  have d: "node_at (fs w') (path @ [''pi.npy'']) = node_at (fs w) (path @ [''pi.npy''])"
    unfolding fs by (simp add: node_at_store [OF st] mkdir_parents_child [OF mk])
  have e: "map_of ?md ''motif_0'' = Some JNull \<and> map_of ?md ''motif_1'' = Some JNull"
    by simp
  from a b c d e show ?thesis by blast
qed


lemma long_branch:
  assumes run': "write ext input_path output_path cens_sr mp_window w = (Inr (), w')"
    and dir: "output_dir input_path output_path = Inr path"
    and audio: "librosa_load ext input_path = Inr (data, sample_rate)"
    and long: "5 \<le> get_duration ext data sample_rate"
    and fresh: "\<not> outputs_complete (fs w) path"
  shows "\<exists>cens mp pidx motif nearest md.
           chroma_cens ext data sample_rate (cens_per_sec ext sample_rate cens_sr) = Inr cens \<and>
           simple_fast ext cens cens mp_window = Inr (mp, pidx) \<and>
           np_argmin mp = Inr motif \<and> py_index pidx motif = Inr nearest \<and>
           map_of md ''motif_0'' = Some (JInt (int motif)) \<and>
           map_of md ''motif_1'' = Some (JInt nearest) \<and>
           node_at (fs w') (path @ [''metadata.json'']) = Some (File (Json md)) \<and>
           node_at (fs w') (path @ [''mp.npy'']) = Some (File (NpyFloat mp)) \<and>
           node_at (fs w') (path @ [''pi.npy'']) = Some (File (NpyInt pidx)) \<and>
           new_events w w' =
             [Load input_path, Features, Locate, Wrote (path @ [''metadata.json'']) (Json md),
              Wrote (path @ [''mp.npy'']) (NpyFloat mp),
              Wrote (path @ [''pi.npy'']) (NpyInt pidx)]"
proof (rule long_success [OF run' dir fresh audio])
  from long show "\<not> get_duration ext data sample_rate < 5" by simp
next
  fix cens f1 mp pidx motif nearest f2 f3 f4
  assume feats: "chroma_cens ext data sample_rate (cens_per_sec ext sample_rate cens_sr) = Inr cens"
    and mk: "mkdir_parents path (fs w) = Inr f1"
    and prof: "simple_fast ext cens cens mp_window = Inr (mp, pidx)"
    and am: "np_argmin mp = Inr motif" and ix: "py_index pidx motif = Inr nearest"
    and st2: "store (path @ [''metadata.json''])
       (Json (dict_merge (metadata input_path cens_sr mp_window sample_rate cens data
                (get_duration ext data sample_rate))
           [(''motif_0'', JInt (int motif)), (''motif_1'', JInt nearest)])) f1 = Inr f2"
    and st3: "store (path @ [''mp.npy'']) (NpyFloat mp) f2 = Inr f3"
    and st4: "store (path @ [''pi.npy'']) (NpyInt pidx) f3 = Inr f4"
    and fs: "fs w' = f4"
    and ev: "new_events w w' =
       [Load input_path, Features, Locate,
        Wrote (path @ [''metadata.json''])
          (Json (dict_merge (metadata input_path cens_sr mp_window sample_rate cens data
                (get_duration ext data sample_rate))
           [(''motif_0'', JInt (int motif)), (''motif_1'', JInt nearest)])),
        Wrote (path @ [''mp.npy'']) (NpyFloat mp),
        Wrote (path @ [''pi.npy'']) (NpyInt pidx)]"
  let ?md = "dict_merge (metadata input_path cens_sr mp_window sample_rate cens data
                (get_duration ext data sample_rate))
           [(''motif_0'', JInt (int motif)), (''motif_1'', JInt nearest)]"
  have a: "node_at (fs w') (path @ [''pi.npy'']) = Some (File (NpyInt pidx))"
    unfolding fs by (simp add: node_at_store [OF st4])
  have b: "node_at (fs w') (path @ [''mp.npy'']) = Some (File (NpyFloat mp))"
    unfolding fs by (simp add: node_at_store [OF st4] node_at_store [OF st3])
  have c: "node_at (fs w') (path @ [''metadata.json'']) = Some (File (Json ?md))"
    unfolding fs
    by (simp add: node_at_store [OF st4] node_at_store [OF st3] node_at_store [OF st2])
  have d: "map_of ?md ''motif_0'' = Some (JInt (int motif))"
    "map_of ?md ''motif_1'' = Some (JInt nearest)" by simp_all
  show ?thesis
    apply (rule exI [of _ cens], rule exI [of _ mp], rule exI [of _ pidx])
    apply (rule exI [of _ motif], rule exI [of _ nearest], rule exI [of _ ?md])
    apply (intro conjI)
    apply (rule feats, rule prof, rule am, rule ix, rule d(1), rule d(2), rule c, rule b, rule a)
    apply (rule ev)
    done
qed

subsection \<open>Reading records and building the table\<close>



lemma first_seen_set [simp]: "set (first_seen xs) = set xs"
  by (simp add: first_seen_def)

lemma first_seen_distinct [simp]: "distinct (first_seen xs)"
  by (simp add: first_seen_def)













subsection \<open>Evaluation on the sample recordings\<close>

lemmas sample_defs = sample_ext_def sample_load_def sample_cens_def sample_search_def
  short_ogg_def long_ogg_def out_dir_def empty_world_def path_name_def
  output_dir_def py_first_def path_div_def parts_of_string_def outputs_complete_def
  path_exists_def is_dir_def node_at_def output_files_def mkdir_parents_def store_def parent_def
  np_argmin_def py_index_def Let_def shape1_def

lemma short_run_ok:
  "fst (write sample_ext short_ogg out_dir 10 50 empty_world) = Inr ()"
  by (simp add: write_def io_defs sample_defs)

lemma long_run_ok:
  "fst (write sample_ext long_ogg out_dir 10 50 empty_world) = Inr ()"
  by (simp add: write_def io_defs sample_defs)

lemma sample_dirs:
  "output_dir short_ogg out_dir = Inr [''motif'', ''afrsil1'', ''short'']"
  "output_dir long_ogg out_dir = Inr [''motif'', ''afrsil1'', ''long'']"
  by (simp_all add: sample_defs)

lemma sample_audio:
  "librosa_load sample_ext short_ogg = Inr (replicate 90 0, 20)"
  "librosa_load sample_ext long_ogg = Inr (replicate 110 0, 20)"
  by (simp_all add: sample_defs)

lemma sample_durations:
  "get_duration sample_ext (replicate 90 0) 20 < 5"
  "5 \<le> get_duration sample_ext (replicate 110 0) 20"
  by (simp_all add: sample_defs)

lemma sample_fresh:
  "\<not> outputs_complete (fs empty_world) [''motif'', ''afrsil1'', ''short'']"
  "\<not> outputs_complete (fs empty_world) [''motif'', ''afrsil1'', ''long'']"
  by (simp_all add: sample_defs)


lemma sample_features:
  "chroma_cens sample_ext (replicate 110 0) 20 (cens_per_sec sample_ext 20 10) =
     Inr [replicate 56 0, replicate 56 0]"
  "simple_fast sample_ext [replicate 56 0, replicate 56 0] [replicate 56 0, replicate 56 0] 50 =
     Inr ([3, 1, 2, 1], [2, 3, 0, 1])"
  by (simp_all add: sample_defs)


lemma long_run_events:
  "new_events empty_world (snd (write sample_ext long_ogg out_dir 10 50 empty_world)) =
     [Load long_ogg, Features, Locate,
      Wrote [''motif'', ''afrsil1'', ''long'', ''metadata.json'']
        (Json (dict_merge (metadata long_ogg 10 50 20 [replicate 56 0, replicate 56 0]
                 (replicate 110 0) (11 / 2)) [(''motif_0'', JInt 1), (''motif_1'', JInt 3)])),
      Wrote [''motif'', ''afrsil1'', ''long'', ''mp.npy''] (NpyFloat [3, 1, 2, 1]),
      Wrote [''motif'', ''afrsil1'', ''long'', ''pi.npy''] (NpyInt [2, 3, 0, 1])]"
  by (simp add: write_def io_defs sample_defs new_events_def)

lemma short_run_events:
  "new_events empty_world (snd (write sample_ext short_ogg out_dir 10 50 empty_world)) =
     [Load short_ogg, Features,
      Wrote [''motif'', ''afrsil1'', ''short'', ''metadata.json'']
        (Json (metadata short_ogg 10 50 20 [replicate 46 0, replicate 46 0]
                 (replicate 90 0) (9 / 2)))]"
  by (simp add: write_def io_defs sample_defs new_events_def)


lemmas validating_defs = validating_ext_def locate_def

lemma validating_facts:
  "simple_fast validating_ext = locate sample_search"
  "chroma_cens validating_ext (replicate 110 0) 20 (cens_per_sec validating_ext 20 10) =
     Inr [replicate 56 0, replicate 56 0]"
  "int (shape1 [replicate 56 0 :: rat list, replicate 56 0]) \<le> 60"
  "librosa_load validating_ext long_ogg = Inr (replicate 110 0, 20)"
  "5 \<le> get_duration validating_ext (replicate 110 0) 20"
  by (simp_all add: sample_defs validating_defs)

lemma validating_run:
  "write validating_ext long_ogg out_dir 10 60 empty_world =
     (Inl InvalidWindowError,
      \<lparr>fs = [([''motif''], Dir), ([''motif'', ''afrsil1''], Dir),
              ([''motif'', ''afrsil1'', ''long''], Dir)],
        trace = [Load long_ogg, Features, Locate]\<rparr>)"
  by (simp add: write_def io_defs sample_defs validating_defs)


lemma long_recording_rerun_skips:
  "write sample_ext long_ogg out_dir 10 50
     (snd (write sample_ext long_ogg out_dir 10 50 empty_world)) =
   (Inr (), snd (write sample_ext long_ogg out_dir 10 50 empty_world))"
  by (simp add: write_def io_defs sample_defs)

lemma no_dot_no_ogg: "CHR ''.'' \<notin> set s \<Longrightarrow> \<not> (\<exists>u v. s = u @ ''.ogg'' @ v)"
  by auto

lemma no_slash_parts:
  assumes "CHR ''/'' \<notin> set s" and "s \<noteq> []" and "s \<noteq> ''.''"
  shows "path_div p s = p @ [s]"
proof -
  from assms(1) have "\<not> (\<exists>u v. s = u @ ''/'' @ v)" by auto
  then have "split_str s ''/'' = [s]" by (rule split_str_no_match)
  moreover from assms(1,2) have "\<not> prefix ''/'' s" by (cases s) auto
  ultimately show ?thesis using assms(2,3) by (simp add: path_div_def parts_of_string_def)
qed

lemma strip_ogg: "spec_strip_extension (stem @ ''.ogg'') = stem"
  by (simp add: spec_strip_extension_def)


lemma output_dir_other_extension_value:
  "output_dir [''train_audio'', ''afrsil1'', ''XC125458.wav''] out_dir =
     Inr (out_dir @ [''XC125458.wav''])"
  by (simp add: sample_defs)







subsection \<open>The output path is checked first\<close>

text \<open>
  C6. When the output path exists and is not a directory, \<open>write\<close> fails with the
  \<open>ValueError\<close> of line 27 and leaves the world as it was: the trace is unchanged, so no
  recording was decoded, no features were extracted, the locator was not invoked and
  nothing was stored.
\<close>

theorem write_rejects_file_output:
  assumes "path_exists (fs w) output_path" and "\<not> is_dir (fs w) output_path"
  shows "write ext input_path output_path cens_sr mp_window w =
         (Inl (ValueError ''output_path should be a folder''), w)"
  using assms by (simp add: write_def io_raise_def)

theorem write_rejects_file_output_witness:
  "path_exists (fs blocked_world) out_dir \<and> \<not> is_dir (fs blocked_world) out_dir \<and>
   write sample_ext long_ogg out_dir 10 50 blocked_world =
     (Inl (ValueError ''output_path should be a folder''), blocked_world)"
proof -
  have a: "path_exists (fs blocked_world) out_dir"
    by (simp add: blocked_world_def out_dir_def path_exists_def node_at_def)
  have b: "\<not> is_dir (fs blocked_world) out_dir"
    by (simp add: blocked_world_def out_dir_def is_dir_def node_at_def)
  from a b write_rejects_file_output [OF a b, of sample_ext long_ogg 10 50] show ?thesis by simp
qed


subsection \<open>The five-second policy\<close>

text \<open>
  C1. Take any run of \<open>write\<close> on a recording that decodes to \<open>data\<close> at \<open>sample_rate\<close>.
  If its duration is below 5 seconds, the run never invokes the motif locator and never
  stores an array file, whatever its outcome; when it succeeds and the output set was
  not already complete, \<open>metadata.json\<close> holds a record whose \<open>motif_0\<close> and \<open>motif_1\<close>
  are null and \<open>mp.npy\<close> and \<open>pi.npy\<close> are as they were before. If the duration is at
  least 5 seconds and the run succeeds (so the locator accepted the window) on an output
  set that was not already complete, the locator was invoked, both array files were
  stored, and the record's \<open>motif_0\<close> and \<open>motif_1\<close> are integers.
\<close>

theorem duration_policy:
  assumes run: "write ext input_path output_path cens_sr mp_window w = (r, w')"
    and dir: "output_dir input_path output_path = Inr path"
    and audio: "librosa_load ext input_path = Inr (data, sample_rate)"
  shows "(get_duration ext data sample_rate < 5 \<longrightarrow>
            Locate \<notin> set (new_events w w') \<and>
            (\<forall>p mp. Wrote p (NpyFloat mp) \<notin> set (new_events w w')) \<and>
            (\<forall>p pidx. Wrote p (NpyInt pidx) \<notin> set (new_events w w')) \<and>
            (r = Inr () \<and> \<not> outputs_complete (fs w) path \<longrightarrow>
               (\<exists>md. node_at (fs w') (path @ [''metadata.json'']) = Some (File (Json md)) \<and>
                  Wrote (path @ [''metadata.json'']) (Json md) \<in> set (new_events w w') \<and>
                  map_of md ''motif_0'' = Some JNull \<and> map_of md ''motif_1'' = Some JNull) \<and>
               node_at (fs w') (path @ [''mp.npy'']) = node_at (fs w) (path @ [''mp.npy'']) \<and>
               node_at (fs w') (path @ [''pi.npy'']) = node_at (fs w) (path @ [''pi.npy'']))) \<and>
         (5 \<le> get_duration ext data sample_rate \<and> r = Inr () \<and>
          \<not> outputs_complete (fs w) path \<longrightarrow>
            (\<exists>md mp pidx a b.
               Locate \<in> set (new_events w w') \<and>
               Wrote (path @ [''mp.npy'']) (NpyFloat mp) \<in> set (new_events w w') \<and>
               Wrote (path @ [''pi.npy'']) (NpyInt pidx) \<in> set (new_events w w') \<and>
               node_at (fs w') (path @ [''mp.npy'']) = Some (File (NpyFloat mp)) \<and>
               node_at (fs w') (path @ [''pi.npy'']) = Some (File (NpyInt pidx)) \<and>
               node_at (fs w') (path @ [''metadata.json'']) = Some (File (Json md)) \<and>
               map_of md ''motif_0'' = Some (JInt a) \<and> map_of md ''motif_1'' = Some (JInt b)))"
  (is "(?S \<longrightarrow> ?A \<and> ?B \<and> ?C \<and> (?OK \<longrightarrow> ?EFG)) \<and> (?L \<longrightarrow> ?H)")
proof (rule conjI)
  show "?S \<longrightarrow> ?A \<and> ?B \<and> ?C \<and> (?OK \<longrightarrow> ?EFG)"
  proof
    assume s: "?S"
    have a: "?A" by (rule short_events(1) [OF run audio s])
    have b: "?B" using short_events(2) [OF run audio s] by simp
    have c: "?C" using short_events(3) [OF run audio s] by simp
    have d: "?OK \<longrightarrow> ?EFG"
    proof
      assume ok: "?OK"
      from ok have r: "r = Inr ()" and fresh: "\<not> outputs_complete (fs w) path" by simp_all
      show "?EFG" by (rule short_branch [OF run [unfolded r] dir audio s fresh])
    qed
    show "?A \<and> ?B \<and> ?C \<and> (?OK \<longrightarrow> ?EFG)"
      by (rule conjI [OF a conjI [OF b conjI [OF c d]]])
  qed
next
  show "?L \<longrightarrow> ?H"
  proof
    assume l: "?L"
    from l have long: "5 \<le> get_duration ext data sample_rate" and r: "r = Inr ()"
      and fresh: "\<not> outputs_complete (fs w) path" by simp_all
    from long_branch [OF run [unfolded r] dir audio long fresh] show "?H"
      apply (elim exE conjE)
      subgoal for cens mp pidx motif nearest md
        apply (rule exI [of _ md], rule exI [of _ mp], rule exI [of _ pidx])
        apply (rule exI [of _ "int motif"], rule exI [of _ nearest])
        apply simp
        done
      done
  qed
qed



theorem duration_policy_witness:
  "get_duration sample_ext (replicate 90 0) 20 < 5 \<and>
   Locate \<notin> set (new_events empty_world (snd (write sample_ext short_ogg out_dir 10 50 empty_world))) \<and>
   (\<exists>md. node_at (fs (snd (write sample_ext short_ogg out_dir 10 50 empty_world)))
            [''motif'', ''afrsil1'', ''short'', ''metadata.json''] = Some (File (Json md)) \<and>
         map_of md ''motif_0'' = Some JNull \<and> map_of md ''motif_1'' = Some JNull) \<and>
   5 \<le> get_duration sample_ext (replicate 110 0) 20 \<and>
   (\<exists>md mp pidx a b.
      node_at (fs (snd (write sample_ext long_ogg out_dir 10 50 empty_world)))
        [''motif'', ''afrsil1'', ''long'', ''mp.npy''] = Some (File (NpyFloat mp)) \<and>
      node_at (fs (snd (write sample_ext long_ogg out_dir 10 50 empty_world)))
        [''motif'', ''afrsil1'', ''long'', ''pi.npy''] = Some (File (NpyInt pidx)) \<and>
      node_at (fs (snd (write sample_ext long_ogg out_dir 10 50 empty_world)))
        [''motif'', ''afrsil1'', ''long'', ''metadata.json''] = Some (File (Json md)) \<and>
      map_of md ''motif_0'' = Some (JInt a) \<and> map_of md ''motif_1'' = Some (JInt b))"
proof -
  let ?ws = "snd (write sample_ext short_ogg out_dir 10 50 empty_world)"
  let ?wl = "snd (write sample_ext long_ogg out_dir 10 50 empty_world)"
  have rs: "write sample_ext short_ogg out_dir 10 50 empty_world = (Inr (), ?ws)"
    using short_run_ok by (simp add: prod_eq_iff)
  have rl: "write sample_ext long_ogg out_dir 10 50 empty_world = (Inr (), ?wl)"
    using long_run_ok by (simp add: prod_eq_iff)
  note s = duration_policy [OF rs sample_dirs(1) sample_audio(1)]
  note l = duration_policy [OF rl sample_dirs(2) sample_audio(2)]
  from s sample_durations(1) sample_fresh(1)
  have a: "Locate \<notin> set (new_events empty_world ?ws)"
    and b: "\<exists>md. node_at (fs ?ws) [''motif'', ''afrsil1'', ''short'', ''metadata.json''] =
               Some (File (Json md)) \<and>
             map_of md ''motif_0'' = Some JNull \<and> map_of md ''motif_1'' = Some JNull"
    by auto
  from l sample_durations(2) sample_fresh(2)
  have c: "\<exists>md mp pidx a b.
      node_at (fs ?wl) [''motif'', ''afrsil1'', ''long'', ''mp.npy''] = Some (File (NpyFloat mp)) \<and>
      node_at (fs ?wl) [''motif'', ''afrsil1'', ''long'', ''pi.npy''] = Some (File (NpyInt pidx)) \<and>
      node_at (fs ?wl) [''motif'', ''afrsil1'', ''long'', ''metadata.json''] =
        Some (File (Json md)) \<and>
      map_of md ''motif_0'' = Some (JInt a) \<and> map_of md ''motif_1'' = Some (JInt b)"
    by auto
  from sample_durations(1) a b sample_durations(2) c show ?thesis by (intro conjI)
qed


subsection \<open>The motif pair\<close>

text \<open>
  C2. When \<open>write\<close> analyses a recording of at least 5 seconds and succeeds, with \<open>mp\<close> and
  \<open>pidx\<close> the matrix profile and the profile index that the locator returned, the record
  stored in \<open>metadata.json\<close> has \<open>motif_0 = i\<close> and \<open>motif_1 = pidx[i]\<close>, where \<open>i\<close> is the
  argmin of \<open>mp\<close> with the first index winning ties: no entry of \<open>mp\<close> is smaller than
  \<open>mp[i]\<close> and every entry before \<open>i\<close> is strictly larger.
\<close>

theorem motif_is_first_argmin:
  assumes run: "write ext input_path output_path cens_sr mp_window w = (Inr (), w')"
    and dir: "output_dir input_path output_path = Inr path"
    and fresh: "\<not> outputs_complete (fs w) path"
    and audio: "librosa_load ext input_path = Inr (data, sample_rate)"
    and long: "5 \<le> get_duration ext data sample_rate"
    and feats: "chroma_cens ext data sample_rate (cens_per_sec ext sample_rate cens_sr) = Inr cens"
    and prof: "simple_fast ext cens cens mp_window = Inr (mp, pidx)"
  shows "\<exists>md i. node_at (fs w') (path @ [''metadata.json'']) = Some (File (Json md)) \<and>
           Wrote (path @ [''metadata.json'']) (Json md) \<in> set (new_events w w') \<and>
           map_of md ''motif_0'' = Some (JInt (int i)) \<and>
           map_of md ''motif_1'' = Some (JInt (pidx ! i)) \<and>
           i < length mp \<and> i < length pidx \<and>
           (\<forall>j<length mp. mp ! i \<le> mp ! j) \<and> (\<forall>j<i. mp ! i < mp ! j)"
  using long_branch [OF run dir audio long fresh]
proof (elim exE conjE)
  fix cens' mp' pidx' motif nearest md
  assume f: "chroma_cens ext data sample_rate (cens_per_sec ext sample_rate cens_sr) = Inr cens'"
    and p: "simple_fast ext cens' cens' mp_window = Inr (mp', pidx')"
    and am: "np_argmin mp' = Inr motif" and ix: "py_index pidx' motif = Inr nearest"
    and m0: "map_of md ''motif_0'' = Some (JInt (int motif))"
    and m1: "map_of md ''motif_1'' = Some (JInt nearest)"
    and at: "node_at (fs w') (path @ [''metadata.json'']) = Some (File (Json md))"
    and ev: "new_events w w' =
             [Load input_path, Features, Locate, Wrote (path @ [''metadata.json'']) (Json md),
              Wrote (path @ [''mp.npy'']) (NpyFloat mp'),
              Wrote (path @ [''pi.npy'']) (NpyInt pidx')]"
  from f feats have "cens' = cens" by simp
  with p prof have eq: "mp' = mp" "pidx' = pidx" by simp_all
  from ix have lt: "motif < length pidx" and nr: "nearest = pidx ! motif"
    unfolding eq by (auto simp: py_index_def split: if_splits)
  have wr: "Wrote (path @ [''metadata.json'']) (Json md) \<in> set (new_events w w')"
    unfolding ev by simp
  from np_argmin_first_min [OF am [unfolded eq]]
  have fm: "motif < length mp" "\<forall>j<length mp. mp ! motif \<le> mp ! j"
    "\<forall>j<motif. mp ! motif < mp ! j" by simp_all
  show ?thesis
    apply (rule exI [of _ md], rule exI [of _ motif])
    apply (intro conjI)
    apply (rule at, rule wr, rule m0, rule m1 [unfolded nr], rule fm(1), rule lt, rule fm(2))
    apply (rule fm(3))
    done
qed


theorem motif_is_first_argmin_witness:
  "\<exists>md i. node_at (fs (snd (write sample_ext long_ogg out_dir 10 50 empty_world)))
             [''motif'', ''afrsil1'', ''long'', ''metadata.json''] = Some (File (Json md)) \<and>
          map_of md ''motif_0'' = Some (JInt (int i)) \<and>
          map_of md ''motif_1'' = Some (JInt ([2, 3, 0, 1] ! i)) \<and>
          i < length [3, 1, 2, 1 :: rat] \<and>
          (\<forall>j<length [3, 1, 2, 1 :: rat]. [3, 1, 2, 1 :: rat] ! i \<le> [3, 1, 2, 1] ! j) \<and>
          (\<forall>j<i. [3, 1, 2, 1 :: rat] ! i < [3, 1, 2, 1] ! j)"
proof -
  let ?wl = "snd (write sample_ext long_ogg out_dir 10 50 empty_world)"
  have rl: "write sample_ext long_ogg out_dir 10 50 empty_world = (Inr (), ?wl)"
    using long_run_ok by (simp add: prod_eq_iff)
  from motif_is_first_argmin [OF rl sample_dirs(2) sample_fresh(2) sample_audio(2)
      sample_durations(2) sample_features]
  show ?thesis by auto
qed


subsection \<open>The records \<open>write\<close> stores\<close>

text \<open>
  C5. Every record that a run of \<open>write\<close> stores is stored at \<open>metadata.json\<close> in the
  recording's directory and has exactly the nine keys \<open>source_name\<close>, \<open>cens_sample_rate\<close>,
  \<open>matrix_profile_window\<close>, \<open>sample_rate\<close>, \<open>duration_cens\<close>, \<open>duration_samples\<close>,
  \<open>duration_seconds\<close>, \<open>motif_0\<close>, \<open>motif_1\<close>. Its \<open>duration_seconds\<close> is the audio duration
  rounded to two decimals: a multiple of 0.01 at most 0.005 away from the duration. Its
  \<open>motif_0\<close> and \<open>motif_1\<close> are each null or an integer.
\<close>

theorem metadata_json_shape:
  assumes "write ext input_path output_path cens_sr mp_window w = (r, w')"
    and "Wrote p (Json d) \<in> set (new_events w w')"
  shows "map fst d = metadata_keys \<and>
         (\<exists>path. output_dir input_path output_path = Inr path \<and> p = path @ [''metadata.json'']) \<and>
         (\<exists>data sample_rate seconds.
            librosa_load ext input_path = Inr (data, sample_rate) \<and>
            map_of d ''duration_seconds'' = Some (JNum seconds) \<and>
            seconds = py_round2 (get_duration ext data sample_rate) \<and>
            \<bar>seconds - get_duration ext data sample_rate\<bar> \<le> 1 / 200 \<and>
            (\<exists>k::int. seconds * 100 = of_int k)) \<and>
         (\<exists>m0 m1. map_of d ''motif_0'' = Some m0 \<and> map_of d ''motif_1'' = Some m1 \<and>
            (m0 = JNull \<or> (\<exists>a. m0 = JInt a)) \<and> (m1 = JNull \<or> (\<exists>b. m1 = JInt b)))"
  (is "?K \<and> ?P \<and> ?D \<and> ?M")
proof -
  have dur: "\<exists>seconds. librosa_load ext input_path = Inr (data, sample_rate) \<and>
            map_of d ''duration_seconds'' = Some (JNum seconds) \<and>
            seconds = py_round2 (get_duration ext data sample_rate) \<and>
            \<bar>seconds - get_duration ext data sample_rate\<bar> \<le> 1 / 200 \<and>
            (\<exists>k::int. seconds * 100 = of_int k)"
    if "librosa_load ext input_path = Inr (data, sample_rate)"
      "map_of d ''duration_seconds'' = Some (JNum (py_round2 (get_duration ext data sample_rate)))"
    for data sample_rate
    using that py_round2_near [of "get_duration ext data sample_rate"]
      py_round2_hundredths [of "get_duration ext data sample_rate"] by blast
  from assms show ?thesis
  proof (cases rule: written_record_cases)
    case (null_pair path data sample_rate cens)
    have k: "?K" using null_pair(4) by simp
    have p: "?P" using null_pair(1,2) by simp
    have d: "?D" using dur [OF null_pair(3)] null_pair(4) by auto
    have m: "?M" using null_pair(4) by simp
    from k p d m show ?thesis by (intro conjI)
  next
    case (motif_pair path data sample_rate cens a b)
    have k: "?K" using motif_pair(4) by simp
    have p: "?P" using motif_pair(1,2) by simp
    have d: "?D" using dur [OF motif_pair(3)] motif_pair(4) by (auto simp: merge_other)
    have m: "?M" using motif_pair(4) by simp
    from k p d m show ?thesis by (intro conjI)
  qed
qed



theorem metadata_json_shape_witness:
  "Wrote [''motif'', ''afrsil1'', ''short'', ''metadata.json'']
     (Json (metadata short_ogg 10 50 20 [replicate 46 0, replicate 46 0] (replicate 90 0) (9 / 2)))
     \<in> set (new_events empty_world (snd (write sample_ext short_ogg out_dir 10 50 empty_world))) \<and>
   map fst (metadata short_ogg 10 50 20 [replicate 46 0, replicate 46 0] (replicate 90 0) (9 / 2)) =
     metadata_keys \<and>
   (\<exists>seconds.
      map_of (metadata short_ogg 10 50 20 [replicate 46 0, replicate 46 0] (replicate 90 0) (9 / 2))
        ''duration_seconds'' = Some (JNum seconds) \<and>
      \<bar>seconds - get_duration sample_ext (replicate 90 0) 20\<bar> \<le> 1 / 200)"
proof -
  let ?d = "metadata short_ogg 10 50 20 [replicate 46 0, replicate 46 0] (replicate 90 0) (9 / 2)"
  let ?ws = "snd (write sample_ext short_ogg out_dir 10 50 empty_world)"
  have run: "write sample_ext short_ogg out_dir 10 50 empty_world =
             (fst (write sample_ext short_ogg out_dir 10 50 empty_world), ?ws)" by simp
  have ev: "Wrote [''motif'', ''afrsil1'', ''short'', ''metadata.json''] (Json ?d)
              \<in> set (new_events empty_world ?ws)"
    unfolding short_run_events by simp
  note t = metadata_json_shape [OF run ev]
  have k: "map fst ?d = metadata_keys" by (rule conjunct1 [OF t])
  have "\<exists>data sample_rate seconds.
            librosa_load sample_ext short_ogg = Inr (data, sample_rate) \<and>
            map_of ?d ''duration_seconds'' = Some (JNum seconds) \<and>
            seconds = py_round2 (get_duration sample_ext data sample_rate) \<and>
            \<bar>seconds - get_duration sample_ext data sample_rate\<bar> \<le> 1 / 200 \<and>
            (\<exists>k::int. seconds * 100 = of_int k)"
    by (rule conjunct1 [OF conjunct2 [OF conjunct2 [OF t]]])
  then have s: "\<exists>seconds. map_of ?d ''duration_seconds'' = Some (JNum seconds) \<and>
      \<bar>seconds - get_duration sample_ext (replicate 90 0) 20\<bar> \<le> 1 / 200"
    unfolding sample_audio(1) by auto
  from ev k s show ?thesis by (intro conjI)
qed

text \<open>
  C10. In every record that a run of \<open>write\<close> stores, \<open>motif_0\<close> and \<open>motif_1\<close> are both
  null or both integers, whatever the outcome of the run.
\<close>

theorem motif_pair_both_or_neither:
  assumes "write ext input_path output_path cens_sr mp_window w = (r, w')"
    and "Wrote p (Json d) \<in> set (new_events w w')"
  shows "(map_of d ''motif_0'' = Some JNull \<and> map_of d ''motif_1'' = Some JNull) \<or>
         (\<exists>a b. map_of d ''motif_0'' = Some (JInt a) \<and> map_of d ''motif_1'' = Some (JInt b))"
  using assms
proof (cases rule: written_record_cases)
  case (null_pair path data sample_rate cens)
  then show ?thesis by simp
next
  case (motif_pair path data sample_rate cens a b)
  then show ?thesis by simp
qed


theorem motif_pair_both_or_neither_witness:
  "Wrote [''motif'', ''afrsil1'', ''long'', ''metadata.json'']
     (Json (dict_merge (metadata long_ogg 10 50 20 [replicate 56 0, replicate 56 0]
                 (replicate 110 0) (11 / 2)) [(''motif_0'', JInt 1), (''motif_1'', JInt 3)]))
     \<in> set (new_events empty_world (snd (write sample_ext long_ogg out_dir 10 50 empty_world))) \<and>
   map_of (dict_merge (metadata long_ogg 10 50 20 [replicate 56 0, replicate 56 0]
                 (replicate 110 0) (11 / 2)) [(''motif_0'', JInt 1), (''motif_1'', JInt 3)])
     ''motif_0'' = Some (JInt 1) \<and>
   map_of (dict_merge (metadata long_ogg 10 50 20 [replicate 56 0, replicate 56 0]
                 (replicate 110 0) (11 / 2)) [(''motif_0'', JInt 1), (''motif_1'', JInt 3)])
     ''motif_1'' = Some (JInt 3)"
proof -
  let ?d = "dict_merge (metadata long_ogg 10 50 20 [replicate 56 0, replicate 56 0]
                 (replicate 110 0) (11 / 2)) [(''motif_0'', JInt 1), (''motif_1'', JInt 3)]"
  let ?wl = "snd (write sample_ext long_ogg out_dir 10 50 empty_world)"
  have run: "write sample_ext long_ogg out_dir 10 50 empty_world =
             (fst (write sample_ext long_ogg out_dir 10 50 empty_world), ?wl)" by simp
  have ev: "Wrote [''motif'', ''afrsil1'', ''long'', ''metadata.json''] (Json ?d)
              \<in> set (new_events empty_world ?wl)"
    unfolding long_run_events by simp
  from motif_pair_both_or_neither [OF run ev] ev show ?thesis by simp
qed



subsection \<open>An invalid window\<close>

text \<open>
  C3. Let the locator be the specification's \<open>locate\<close>, whatever its numeric search is,
  and let \<open>write\<close> run on a recording of at least 5 seconds whose feature matrix \<open>cens\<close>
  has \<open>window >= frames\<close> or \<open>window <= 0\<close>. Then the locator answers
  \<open>InvalidWindowError\<close> without running the search; the run of \<open>write\<close> stores no file at
  all, every regular file is exactly as it was before, a run that reached the locator
  ends in \<open>InvalidWindowError\<close>, and a run that returns normally (the output set was
  already complete) changes nothing.
\<close>

theorem invalid_window_fails_without_writes:
  assumes val: "simple_fast ext = locate search"
    and run: "write ext input_path output_path cens_sr mp_window w = (r, w')"
    and audio: "librosa_load ext input_path = Inr (data, sample_rate)"
    and feats: "chroma_cens ext data sample_rate (cens_per_sec ext sample_rate cens_sr) = Inr cens"
    and long: "5 \<le> get_duration ext data sample_rate"
    and bad: "int (shape1 cens) \<le> mp_window \<or> mp_window \<le> 0"
  shows "locate search cens cens mp_window = Inl InvalidWindowError \<and>
         (\<forall>p c. Wrote p c \<notin> set (new_events w w')) \<and>
         (\<forall>q c. (node_at (fs w') q = Some (File c)) = (node_at (fs w) q = Some (File c))) \<and>
         (Locate \<in> set (new_events w w') \<longrightarrow> r = Inl InvalidWindowError) \<and>
         (r = Inr () \<longrightarrow> w' = w)"
proof -
  have e: "locate search cens cens mp_window = Inl InvalidWindowError"
    using bad by (auto simp: locate_def)
  with val have sf: "simple_fast ext cens cens mp_window = Inl InvalidWindowError" by simp
  from long have nshort: "\<not> get_duration ext data sample_rate < 5" by simp
  note f = failed_locate_no_writes [OF run audio feats nshort sf]
  have a: "\<forall>p c. Wrote p c \<notin> set (new_events w w')" using f(1) by simp
  have b: "\<forall>q c. (node_at (fs w') q = Some (File c)) = (node_at (fs w) q = Some (File c))"
  proof (intro allI)
    fix q c
    from f(4) show "(node_at (fs w') q = Some (File c)) = (node_at (fs w) q = Some (File c))"
    proof
      assume "fs w' = fs w"
      then show ?thesis by simp
    next
      assume "\<exists>path. output_dir input_path output_path = Inr path \<and>
                 mkdir_parents path (fs w) = Inr (fs w')"
      then obtain path where "mkdir_parents path (fs w) = Inr (fs w')" by (elim exE conjE)
      then show ?thesis by (rule mkdir_parents_files)
    qed
  qed
  have c: "Locate \<in> set (new_events w w') \<longrightarrow> r = Inl InvalidWindowError"
    using f(2) by simp
  have d: "r = Inr () \<longrightarrow> w' = w" using f(3) by simp
  from e a b c d show ?thesis by (intro conjI)
qed


theorem invalid_window_fails_without_writes_witness:
  "int (shape1 [replicate 56 0 :: rat list, replicate 56 0]) \<le> 60 \<and>
   5 \<le> get_duration validating_ext (replicate 110 0) 20 \<and>
   locate sample_search [replicate 56 0, replicate 56 0] [replicate 56 0, replicate 56 0] 60 =
     Inl InvalidWindowError \<and>
   Locate \<in> set (new_events empty_world
                   (snd (write validating_ext long_ogg out_dir 10 60 empty_world))) \<and>
   fst (write validating_ext long_ogg out_dir 10 60 empty_world) = Inl InvalidWindowError \<and>
   (\<forall>p c. Wrote p c \<notin> set (new_events empty_world
                   (snd (write validating_ext long_ogg out_dir 10 60 empty_world))))"
proof -
  let ?w = "snd (write validating_ext long_ogg out_dir 10 60 empty_world)"
  let ?r = "fst (write validating_ext long_ogg out_dir 10 60 empty_world)"
  have run: "write validating_ext long_ogg out_dir 10 60 empty_world = (?r, ?w)" by simp
  have bad: "int (shape1 [replicate 56 0 :: rat list, replicate 56 0]) \<le> 60 \<or> (60::int) \<le> 0"
    using validating_facts(3) by simp
  note t = invalid_window_fails_without_writes [OF validating_facts(1) run validating_facts(4)
      validating_facts(2) validating_facts(5) bad]
  have loc: "Locate \<in> set (new_events empty_world ?w)"
    unfolding validating_run by (simp add: new_events_def empty_world_def)
  have e: "locate sample_search [replicate 56 0, replicate 56 0] [replicate 56 0, replicate 56 0] 60 =
     Inl InvalidWindowError" by (rule conjunct1 [OF t])
  have a: "\<forall>p c. Wrote p c \<notin> set (new_events empty_world ?w)"
    by (rule conjunct1 [OF conjunct2 [OF t]])
  have "Locate \<in> set (new_events empty_world ?w) \<longrightarrow> ?r = Inl InvalidWindowError"
    by (rule conjunct1 [OF conjunct2 [OF conjunct2 [OF conjunct2 [OF t]]]])
  with loc have r: "?r = Inl InvalidWindowError" by simp
  from validating_facts(3) validating_facts(5) e loc r a show ?thesis by (intro conjI)
qed


subsection \<open>Running \<open>write\<close> again\<close>

text \<open>
  C4. The second run of \<open>write\<close> on the 4.5-second sample recording, in the world the first
  run left: it succeeds, but it is not skipped. The recording is decoded and its features
  are extracted again, and \<open>metadata.json\<close> is stored again with the same content, so
  that the file system is unchanged. The test of lines 34-35 asks for \<open>mp.npy\<close> and
  \<open>pi.npy\<close>, which a recording under 5 seconds never gets. (A recording of at least 5
  seconds is skipped: \<open>long_recording_rerun_skips\<close>, and \<open>complete_rerun\<close> in general.)
\<close>

theorem short_recording_rerun_recomputes:
  "fst (write sample_ext short_ogg out_dir 10 50 empty_world) = Inr () \<and>
   fst (write sample_ext short_ogg out_dir 10 50
          (snd (write sample_ext short_ogg out_dir 10 50 empty_world))) = Inr () \<and>
   new_events (snd (write sample_ext short_ogg out_dir 10 50 empty_world))
     (snd (write sample_ext short_ogg out_dir 10 50
          (snd (write sample_ext short_ogg out_dir 10 50 empty_world)))) =
     [Load short_ogg, Features,
      Wrote [''motif'', ''afrsil1'', ''short'', ''metadata.json'']
        (Json (metadata short_ogg 10 50 20 [replicate 46 0, replicate 46 0]
                 (replicate 90 0) (9 / 2)))] \<and>
   fs (snd (write sample_ext short_ogg out_dir 10 50
          (snd (write sample_ext short_ogg out_dir 10 50 empty_world)))) =
     fs (snd (write sample_ext short_ogg out_dir 10 50 empty_world))"
  by (simp add: write_def io_defs sample_defs new_events_def)



subsection \<open>The name of the recording's directory\<close>

text \<open>
  C8, as amended. For a recording whose filename is a stem followed by \<open>.ogg\<close>, where
  \<open>.ogg\<close> does not occur inside the stem (and the stem is a proper path part: not empty,
  not a single dot, without a slash), the directory of the recording is the output path
  extended by the stem, which is the filename with its extension stripped.
\<close>

theorem output_dir_strips_ogg:
  assumes "\<not> (\<exists>u v. stem = u @ ''.ogg'' @ v)"
    and "stem \<noteq> []" and "stem \<noteq> ''.''" and "CHR ''/'' \<notin> set stem"
  shows "output_dir (folder @ [stem @ ''.ogg'']) output_path = Inr (output_path @ [stem]) \<and>
         spec_strip_extension (stem @ ''.ogg'') = stem"
proof -
  have n: "path_name (folder @ [stem @ ''.ogg'']) = stem @ ''.ogg''"
    by (simp add: path_name_def)
  have s: "split_str (stem @ ''.ogg'') ''.ogg'' = [stem, []]"
    using assms(1) by (rule split_str_ogg_suffix)
  have d: "path_div output_path stem = output_path @ [stem]"
    using assms(4,2,3) by (rule no_slash_parts)
  have "output_dir (folder @ [stem @ ''.ogg'']) output_path = Inr (output_path @ [stem])"
    unfolding output_dir_def n s by (simp add: py_first_def d)
  with strip_ogg show ?thesis by simp
qed


theorem output_dir_strips_ogg_witness:
  "output_dir ([''train_audio'', ''afrsil1''] @ [''XC125458'' @ ''.ogg'']) out_dir =
     Inr (out_dir @ [''XC125458'']) \<and>
   spec_strip_extension (''XC125458'' @ ''.ogg'') = ''XC125458''"
proof -
  have a: "\<not> (\<exists>u v. ''XC125458'' = u @ ''.ogg'' @ v)" by (rule no_dot_no_ogg) simp
  have b: "''XC125458'' \<noteq> []" "''XC125458'' \<noteq> ''.''" "CHR ''/'' \<notin> set ''XC125458''"
    by simp_all
  from output_dir_strips_ogg [OF a b] show ?thesis .
qed


text \<open>
  C8, as stated, fails for an audio file with another extension: line 30 splits at
  \<open>.ogg\<close> only, so \<open>XC125458.wav\<close> keeps its whole name
  (\<open>output_dir_other_extension_value\<close>), while stripping the extension gives \<open>XC125458\<close>.
\<close>

theorem output_dir_keeps_other_extension:
  "output_dir [''train_audio'', ''afrsil1'', ''XC125458.wav''] out_dir \<noteq>
     Inr (out_dir @ [spec_strip_extension ''XC125458.wav''])"
  by (simp add: sample_defs spec_strip_extension_def)


subsection \<open>Commands without input files\<close>

text \<open>
  C7. When the glob of \<open>consolidate\<close> finds nothing, the command raises
  \<open>ValueError("no files found")\<close> and changes nothing. When the glob of \<open>extract\<close> finds
  nothing, the function raises, whatever the module's globals bind. In the module as it
  is, \<open>extract\<close> raises on every call: its body reads the unbound name \<open>output\<close> (line 94),
  and the command fails even earlier, when click passes the keyword \<open>output\<close> to a
  function whose parameters are \<open>species\<close> and \<open>dataset\<close>.
\<close>

theorem commands_fail_without_files:
  "(glob_rec (fs w) (path_div ROOT (''data/intermediate/'' @ in_name))
       (\<lambda>n. n = ''metadata.json'') = [] \<longrightarrow>
      consolidate ROOT in_name out_name w = (Inl (ValueError ''no files found''), w)) \<and>
   (glob_rec (fs w)
       (case species of
          None \<Rightarrow> path_div ROOT ''data/raw/birdclef-2022/train_audio''
        | Some s \<Rightarrow>
            if s = [] then path_div ROOT ''data/raw/birdclef-2022/train_audio''
            else path_div (path_div ROOT ''data/raw/birdclef-2022/train_audio'') s)
       (suffix ''.ogg'') = [] \<longrightarrow>
      (\<exists>e. extract ext globals ROOT species dataset w = (Inl e, w))) \<and>
   extract ext module_globals ROOT species dataset w = (Inl (NameError ''output''), w) \<and>
   (\<exists>e. extract_command ext ROOT species out_name w = (Inl (TypeError e), w))"
proof (intro conjI impI)
  assume "glob_rec (fs w) (path_div ROOT (''data/intermediate/'' @ in_name))
       (\<lambda>n. n = ''metadata.json'') = []"
  then show "consolidate ROOT in_name out_name w = (Inl (ValueError ''no files found''), w)"
    by (simp add: consolidate_def io_raise_def Let_def)
next
  assume "glob_rec (fs w)
       (case species of
          None \<Rightarrow> path_div ROOT ''data/raw/birdclef-2022/train_audio''
        | Some s \<Rightarrow>
            if s = [] then path_div ROOT ''data/raw/birdclef-2022/train_audio''
            else path_div (path_div ROOT ''data/raw/birdclef-2022/train_audio'') s)
       (suffix ''.ogg'') = []"
  then show "\<exists>e. extract ext globals ROOT species dataset w = (Inl e, w)"
    by (cases "globals ''output''") (simp_all add: extract_def io_raise_def Let_def)
next
  show "extract ext module_globals ROOT species dataset w = (Inl (NameError ''output''), w)"
    by (simp add: extract_def module_globals_def io_raise_def Let_def)
next
  show "\<exists>e. extract_command ext ROOT species out_name w = (Inl (TypeError e), w)"
    by (simp add: extract_command_def call_kwargs_def io_raise_def Let_def)
qed


theorem commands_fail_without_files_witness:
  "glob_rec (fs empty_world) (path_div [] (''data/intermediate/'' @ ''motif''))
       (\<lambda>n. n = ''metadata.json'') = [] \<and>
   consolidate [] ''motif'' ''all'' empty_world = (Inl (ValueError ''no files found''), empty_world) \<and>
   glob_rec (fs empty_world) (path_div [] ''data/raw/birdclef-2022/train_audio'')
       (suffix ''.ogg'') = [] \<and>
   (\<exists>e. extract sample_ext (\<lambda>n. Some ''motif'') [] None ''motif'' empty_world =
          (Inl e, empty_world))"
proof -
  have a: "glob_rec (fs empty_world) (path_div [] (''data/intermediate/'' @ ''motif''))
       (\<lambda>n. n = ''metadata.json'') = []"
    by (simp add: glob_rec_def empty_world_def)
  have b: "glob_rec (fs empty_world)
       (case None :: string option of
          None \<Rightarrow> path_div [] ''data/raw/birdclef-2022/train_audio''
        | Some s \<Rightarrow>
            if s = [] then path_div [] ''data/raw/birdclef-2022/train_audio''
            else path_div (path_div [] ''data/raw/birdclef-2022/train_audio'') s)
       (suffix ''.ogg'') = []"
    by (simp add: glob_rec_def empty_world_def)
  note t = commands_fail_without_files [where w = empty_world and ROOT = "[]"
      and in_name = "''motif''" and out_name = "''all''" and species = None and ext = sample_ext
      and globals = "\<lambda>n. Some ''motif''" and dataset = "''motif''"]
  from t a have c: "consolidate [] ''motif'' ''all'' empty_world =
      (Inl (ValueError ''no files found''), empty_world)" by blast
  from t b have d: "\<exists>e. extract sample_ext (\<lambda>n. Some ''motif'') [] None ''motif'' empty_world =
          (Inl e, empty_world)" by blast
  from b have b': "glob_rec (fs empty_world) (path_div [] ''data/raw/birdclef-2022/train_audio'')
       (suffix ''.ogg'') = []" by simp
  from a c b' d show ?thesis by (intro conjI)
qed


subsection \<open>The consolidated table\<close>




end
